theory Spec2Isabelle
  imports Complex_Main
begin

section \<open>The screen-capture server (servers/screenshare\_mcp.py)\<close>

text \<open>
  A shallow embedding of the six tools of the server and of the helpers they call.
  The process-wide dictionary \<open>_SRC\<close> is the record \<open>src\<close>, passed in and returned.
  Everything outside the process (the capture library, the imaging library, the clock,
  the file system, external screenshot tools) is an oracle of the record \<open>env\<close>,
  indexed by the number of earlier calls of its kind, which the record \<open>world\<close>
  counts; \<open>world\<close> also logs what the calls did (handles closed, directories made,
  files written, tools run). An exception that leaves a tool is the left injection of
  its result.

  Python's floats are modelled by exact rationals: the scale factor and the quotient
  \<open>float(duration_ms) / float(period_ms)\<close>. For integers below \<open>2^51\<close> in
  magnitude the rounded quotient is the same in both. Pixel contents, logging, and the
  pacing of a burst (\<open>time.sleep\<close>, \<open>time.perf_counter\<close>) are not modelled.
  Names that start with an underscore in the source lose it here.
\<close>

subsection \<open>Data\<close>

type_synonym bytes = string

text \<open>An entry of \<open>sct.monitors\<close>.\<close>

record monitor =
  mon_left :: int
  mon_top :: int
  mon_width :: int
  mon_height :: int

text \<open>The dictionary \<open>region\<close>: left, top, width, height.\<close>

record rect =
  reg_left :: int
  reg_top :: int
  reg_width :: int
  reg_height :: int

text \<open>The dictionary \<open>props\<close> once a source is open; \<open>None\<close> stands for \<open>{}\<close>.\<close>

record src_props =
  props_monitor_index :: int
  props_region :: rect
  props_scale :: rat

text \<open>The global \<open>_SRC\<close>. A capture handle is the number of the call that made it.\<close>

record src =
  sct :: "nat option"
  monitor_index :: int
  region :: "rect option"
  scale :: rat
  props :: "src_props option"

definition init_src :: src where
  "init_src = \<lparr>sct = None, monitor_index = 1, region = None, scale = 1, props = None\<rparr>"

record pil_image =
  img_width :: int
  img_height :: int
  img_mode :: string

datatype exn = ZeroDivisionError | OSError string | MssError string

record env =
  mss_mss :: "nat \<Rightarrow> string + monitor list"
  sct_close :: "nat \<Rightarrow> string option"
  sct_grab :: "nat \<Rightarrow> nat \<Rightarrow> rect \<Rightarrow> string + pil_image"
  is_wsl :: bool
  wsl_capture :: "nat \<Rightarrow> string + pil_image"
  which :: "string \<Rightarrow> bool"
  tool_capture :: "string \<Rightarrow> nat \<Rightarrow> string + pil_image"
  pil_save :: "nat \<Rightarrow> pil_image \<Rightarrow> string \<Rightarrow> string + bytes"
  fs_mkdir :: "nat \<Rightarrow> string \<Rightarrow> string option"
  fs_write :: "nat \<Rightarrow> string \<Rightarrow> bytes \<Rightarrow> string option"
  strftime :: "nat \<Rightarrow> string"
  time_ms :: "nat \<Rightarrow> nat"
  path_dir :: "string \<Rightarrow> string"
  path_join :: "string \<Rightarrow> string \<Rightarrow> string"

text \<open>
  \<open>mss_mss k\<close> is the \<open>k\<close>-th call of \<open>mss.mss()\<close>: the message of the exception
  it raises, or the monitors of the handle \<open>k\<close> it returns. \<open>sct_close h\<close> is the
  message \<open>sct.close()\<close> raises on handle \<open>h\<close>, if any. \<open>sct_grab k h r\<close>,
  \<open>wsl_capture k\<close> and \<open>tool_capture t k\<close> are the three capture mechanisms at the
  \<open>k\<close>-th capture. \<open>pil_save k img f\<close> is the \<open>k\<close>-th \<open>img.save\<close> in format
  \<open>f\<close>. \<open>fs_mkdir k d\<close> and \<open>fs_write k p data\<close> are the message of the error of
  the \<open>k\<close>-th directory creation and the \<open>k\<close>-th file write, if any.
  \<open>strftime c\<close> and \<open>time_ms c\<close> are the \<open>c\<close>-th reading of the clock.
  \<open>path_dir d\<close> is \<open>str(Path(os.path.expanduser(d)))\<close> and \<open>path_join d f\<close> is
  \<open>str(Path(d) / f)\<close>.
\<close>

record world =
  n_mss :: nat
  closed_handles :: "nat list"
  n_grab :: nat
  n_save :: nat
  n_mkdir :: nat
  n_write :: nat
  n_clock :: nat
  made_dirs :: "string list"
  written :: "(string \<times> bytes) list"
  tools_run :: "string list"

definition init_world :: world where
  "init_world = \<lparr>n_mss = 0, closed_handles = [], n_grab = 0, n_save = 0, n_mkdir = 0, n_write = 0,
     n_clock = 0, made_dirs = [], written = [], tools_run = []\<rparr>"

subsection \<open>Numbers and strings of Python\<close>

text \<open>\<open>int(x)\<close> of a float truncates towards zero; \<open>round(x)\<close> rounds half to even.\<close>

definition py_int :: "rat \<Rightarrow> int" where
  "py_int q = (if 0 \<le> q then \<lfloor>q\<rfloor> else \<lceil>q\<rceil>)"

definition py_round :: "rat \<Rightarrow> int" where
  "py_round q =
     (let f = \<lfloor>q\<rfloor>; r = q - of_int f in
      if r < 1 / 2 then f else if 1 / 2 < r then f + 1 else if even f then f else f + 1)"

definition digit :: "nat \<Rightarrow> char" where
  "digit d = ''0123456789'' ! d"

fun decimal :: "nat \<Rightarrow> string" where
  "decimal n = (if n < 10 then [digit n] else decimal (n div 10) @ [digit (n mod 10)])"

declare decimal.simps [simp del]

text \<open>\<open>str(i)\<close> and the format specifications \<open>02d\<close>, \<open>03d\<close> of a natural number.\<close>

definition str_int :: "int \<Rightarrow> string" where
  "str_int i = (if i < 0 then CHR ''-'' # decimal (nat (- i)) else decimal (nat i))"

definition zfill :: "nat \<Rightarrow> string \<Rightarrow> string" where
  "zfill k s = replicate (k - length s) CHR ''0'' @ s"

definition lower_char :: "char \<Rightarrow> char" where
  "lower_char c =
     (case map_of (zip ''ABCDEFGHIJKLMNOPQRSTUVWXYZ'' ''abcdefghijklmnopqrstuvwxyz'') c of
        Some d \<Rightarrow> d | None \<Rightarrow> c)"

definition lower :: "string \<Rightarrow> string" where
  "lower s = map lower_char s"

subsection \<open>The capture source\<close>

definition open_source ::
  "env \<Rightarrow> int \<Rightarrow> int \<Rightarrow> int \<Rightarrow> int \<Rightarrow> int \<Rightarrow> rat \<Rightarrow> src \<Rightarrow> world
     \<Rightarrow> (exn + bool \<times> string) \<times> src \<times> world" where
  "open_source env monitor_index' left' top' width height scale' s w =
     (if sct s \<noteq> None then (Inr (True, ''Screen capture already initialized''), s, w)
      else
        let h = n_mss w; w1 = w\<lparr>n_mss := Suc h\<rparr> in
        case mss_mss env h of
          Inl e \<Rightarrow> (Inr (False, ''Failed to initialize mss: '' @ e), s, w1)
        | Inr monitors \<Rightarrow>
            if monitor_index' < 0 \<or> int (length monitors) \<le> monitor_index' then
              (let w2 = w1\<lparr>closed_handles := closed_handles w1 @ [h]\<rparr> in
               case sct_close env h of
                 Some e \<Rightarrow> (Inl (MssError e), s, w2)
               | None \<Rightarrow>
                   (Inr (False, ''Invalid monitor_index '' @ str_int monitor_index'
                           @ ''; available 0..'' @ str_int (int (length monitors) - 1)),
                    s, w2))
            else
              let mon = monitors ! nat monitor_index';
                  reg =
                    (if width \<le> 0 \<or> height \<le> 0 then
                       \<lparr>reg_left = mon_left mon, reg_top = mon_top mon,
                        reg_width = mon_width mon, reg_height = mon_height mon\<rparr>
                     else
                       \<lparr>reg_left = mon_left mon + max 0 left', reg_top = mon_top mon + max 0 top',
                        reg_width = max 1 width, reg_height = max 1 height\<rparr>);
                  sc = max (1 / 10) (min 1 (if scale' = 0 then 1 else scale'))
              in (Inr (True, ''Screen source initialized''),
                  \<lparr>sct = Some h, monitor_index = monitor_index', region = Some reg, scale = sc,
                   props = Some \<lparr>props_monitor_index = monitor_index', props_region = reg,
                                 props_scale = sc\<rparr>\<rparr>,
                  w1))"

definition close_source :: "env \<Rightarrow> src \<Rightarrow> world \<Rightarrow> src \<times> world" where
  "close_source env s w =
     (let w' =
        (case sct s of
           None \<Rightarrow> w
         | Some h \<Rightarrow>
             (case sct_close env h of
                Some e \<Rightarrow> w\<lparr>closed_handles := closed_handles w @ [h]\<rparr>
              | None \<Rightarrow> w\<lparr>closed_handles := closed_handles w @ [h]\<rparr>))
      in (init_src, w'))"

subsection \<open>Grabbing and encoding a frame\<close>

definition rescale :: "rat \<Rightarrow> pil_image \<Rightarrow> pil_image" where
  "rescale sc img =
     (if 0 < sc \<and> sc < 1 then
        img\<lparr>img_width := max 1 (py_int (of_int (img_width img) * sc)),
            img_height := max 1 (py_int (of_int (img_height img) * sc))\<rparr>
      else img)"

text \<open>
  The fallback chain of \<open>_grab\<close> at the \<open>k\<close>-th capture, with the external tools it
  ran: the primary mechanism, then the PowerShell capture under WSL, then the
  compositor's screenshot tool.
\<close>

definition grab_at ::
  "env \<Rightarrow> nat \<Rightarrow> rect \<Rightarrow> rat \<Rightarrow> nat \<Rightarrow> (string + pil_image) \<times> string list" where
  "grab_at env h reg sc k =
     (case sct_grab env k h reg of
        Inr raw \<Rightarrow> (Inr (rescale sc raw), [])
      | Inl err_primary \<Rightarrow>
          (let ps = (if is_wsl env then
                       (case wsl_capture env k of
                          Inr img \<Rightarrow> (Some img, [], [''powershell.exe''])
                        | Inl e \<Rightarrow> (None, e, [''powershell.exe'']))
                     else (None, ''n/a'', []))
           in case ps of
                (Some img, err_ps, t1) \<Rightarrow> (Inr (rescale sc img), t1)
              | (None, err_ps, t1) \<Rightarrow>
                  (let fb = (if which env ''gnome-screenshot'' then
                               (tool_capture env ''gnome-screenshot'' k, [''gnome-screenshot''])
                             else if which env ''grim'' then
                               (tool_capture env ''grim'' k, [''grim''])
                             else
                               (Inl ''no compositor screenshot tool (gnome-screenshot/grim) found'',
                                []))
                   in case fb of
                        (Inr img, t2) \<Rightarrow> (Inr (rescale sc img), t1 @ t2)
                      | (Inl err_fallback, t2) \<Rightarrow>
                          (Inl (''Failed to grab (mss='' @ err_primary @ '', wsl_ps='' @ err_ps
                                  @ '', fallback='' @ err_fallback @ '')''),
                           t1 @ t2))))"

text \<open>\<open>float(_SRC.get("scale") or 1.0)\<close>.\<close>

definition grab_scale :: "src \<Rightarrow> rat" where
  "grab_scale s = (if scale s = 0 then 1 else scale s)"

definition grab :: "env \<Rightarrow> src \<Rightarrow> world \<Rightarrow> (string + pil_image) \<times> world" where
  "grab env s w =
     (case sct s of
        None \<Rightarrow> (Inl ''Screen source not initialized'', w)
      | Some h \<Rightarrow>
          (case region s of
             None \<Rightarrow> (Inl ''Screen source not initialized'', w)
           | Some reg \<Rightarrow>
               (let k = n_grab w; r = grab_at env h reg (grab_scale s) k
                in (fst r, w\<lparr>n_grab := Suc k, tools_run := tools_run w @ snd r\<rparr>))))"

text \<open>\<open>_encode_image_pil\<close> at the \<open>k\<close>-th save: ok, data, mime (or the error), width, height.\<close>

definition encode_at ::
  "env \<Rightarrow> pil_image \<Rightarrow> string \<Rightarrow> nat \<Rightarrow> bool \<times> bytes \<times> string \<times> int \<times> int" where
  "encode_at env img fmt k =
     (let fmt' = lower (if fmt = [] then ''jpg'' else fmt) in
      if fmt' = ''jpg'' then
        (let img' = (if img_mode img \<noteq> ''RGB'' then img\<lparr>img_mode := ''RGB''\<rparr> else img) in
         case pil_save env k img' ''JPEG'' of
           Inr data \<Rightarrow> (True, data, ''image/jpeg'', img_width img', img_height img')
         | Inl e \<Rightarrow> (False, [], ''encode failed: '' @ e, img_width img', img_height img'))
      else
        (case pil_save env k img ''PNG'' of
           Inr data \<Rightarrow> (True, data, ''image/png'', img_width img, img_height img)
         | Inl e \<Rightarrow> (False, [], ''encode failed: '' @ e, img_width img, img_height img)))"

definition encode_image_pil ::
  "env \<Rightarrow> pil_image \<Rightarrow> string \<Rightarrow> world \<Rightarrow> (bool \<times> bytes \<times> string \<times> int \<times> int) \<times> world" where
  "encode_image_pil env img fmt w = (encode_at env img fmt (n_save w), w\<lparr>n_save := Suc (n_save w)\<rparr>)"

text \<open>
  Line 360, \<open>"image/jpeg" if (format or "jpg").lower() == "jpg" else "image/png"\<close>, and
  lines 314 and 384, \<open>".jpg" if mime == "image/jpeg" else ".png"\<close>.
\<close>

definition format_mime :: "string \<Rightarrow> string" where
  "format_mime fmt =
     (if lower (if fmt = [] then ''jpg'' else fmt) = ''jpg'' then ''image/jpeg'' else ''image/png'')"

definition mime_ext :: "string \<Rightarrow> string" where
  "mime_ext mime = (if mime = ''image/jpeg'' then ''.jpg'' else ''.png'')"

definition timestamp_name :: "env \<Rightarrow> string \<Rightarrow> string \<Rightarrow> nat \<Rightarrow> string" where
  "timestamp_name env prefix ext c =
     prefix @ ''_'' @ strftime env c @ ''_'' @ zfill 3 (decimal (time_ms env c)) @ ext"

subsection \<open>The tools\<close>

record display =
  disp_index :: int
  disp_left :: int
  disp_top :: int
  disp_width :: int
  disp_height :: int
  disp_virtual :: bool

datatype displays_resp = Displays "display list" | DisplaysErr string

datatype start_resp =
  StartResp (start_ok: bool) (start_message: string) (start_props: "src_props option")
    (start_monitor_index: int)

datatype status_resp =
  StatusResp (status_open: bool) (status_monitor_index: int) (status_props: "src_props option")

datatype capture_resp =
  CaptureOk (cap_path: string) (cap_mime: string) (cap_width: int) (cap_height: int)
| CaptureErr string

text \<open>
  The three shapes of a burst's response: the full one with \<open>ok\<close> true;
  \<open>{ok: False, error}\<close>; and \<open>{ok: False, error, paths}\<close>.
\<close>

datatype burst_resp =
  BurstOk (burst_paths: "string list") (burst_mime: string) (burst_width: int)
    (burst_height: int) (burst_n: int) (burst_period_ms: int) (burst_duration_ms: int)
    (burst_save_dir: string)
| BurstErr string
| BurstPartial string "string list"

datatype stop_resp = StopOk

fun enumerate_displays :: "int \<Rightarrow> int \<Rightarrow> monitor list \<Rightarrow> display list" where
  "enumerate_displays max_index i [] = []"
| "enumerate_displays max_index i (mon # mons) =
     (if max_index < i then []
      else \<lparr>disp_index = i, disp_left = mon_left mon, disp_top = mon_top mon,
            disp_width = mon_width mon, disp_height = mon_height mon,
            disp_virtual = (i = 0)\<rparr> # enumerate_displays max_index (i + 1) mons)"

definition list_displays :: "env \<Rightarrow> int \<Rightarrow> world \<Rightarrow> (exn + displays_resp) \<times> world" where
  "list_displays env max_index w =
     (let h = n_mss w; w1 = w\<lparr>n_mss := Suc h\<rparr> in
      case mss_mss env h of
        Inl e \<Rightarrow> (Inr (DisplaysErr e), w1)
      | Inr mons \<Rightarrow>
          (let out = enumerate_displays max_index 0 mons;
               w2 = w1\<lparr>closed_handles := closed_handles w1 @ [h]\<rparr>
           in case sct_close env h of
                Some e \<Rightarrow> (Inr (DisplaysErr e), w2)
              | None \<Rightarrow> (Inr (Displays out), w2)))"

definition screenshare_start ::
  "env \<Rightarrow> int \<Rightarrow> int \<Rightarrow> int \<Rightarrow> int \<Rightarrow> int \<Rightarrow> rat \<Rightarrow> src \<Rightarrow> world
     \<Rightarrow> (exn + start_resp) \<times> src \<times> world" where
  "screenshare_start env monitor_index' left' top' width height scale' s w =
     (case open_source env monitor_index' left' top' width height scale' s w of
        (Inl e, s', w') \<Rightarrow> (Inl e, s', w')
      | (Inr (ok, msg), s', w') \<Rightarrow>
          (Inr (StartResp ok msg (props s') (monitor_index s')), s', w'))"

definition screenshare_status :: "src \<Rightarrow> exn + status_resp" where
  "screenshare_status s = Inr (StatusResp (sct s \<noteq> None) (monitor_index s) (props s))"

definition screenshare_capture ::
  "env \<Rightarrow> string \<Rightarrow> string \<Rightarrow> src \<Rightarrow> world \<Rightarrow> (exn + capture_resp) \<times> world" where
  "screenshare_capture env save_dir fmt s w =
     (case grab env s w of
        (Inl msg, w1) \<Rightarrow> (Inr (CaptureErr msg), w1)
      | (Inr img, w1) \<Rightarrow>
          (case encode_image_pil env img fmt w1 of
             ((ok2, data, mime, iw, ih), w2) \<Rightarrow>
               if \<not> ok2 then (Inr (CaptureErr mime), w2)
               else
                 let out_dir = path_dir env save_dir;
                     w3 = w2\<lparr>n_mkdir := Suc (n_mkdir w2)\<rparr>
                 in case fs_mkdir env (n_mkdir w2) out_dir of
                      Some e \<Rightarrow> (Inl (OSError e), w3)
                    | None \<Rightarrow>
                        (let w4 = w3\<lparr>made_dirs := made_dirs w3 @ [out_dir]\<rparr>;
                             ext = mime_ext mime;
                             fname = timestamp_name env ''screen'' ext (n_clock w4);
                             fpath = path_join env out_dir fname;
                             w5 = w4\<lparr>n_clock := Suc (n_clock w4), n_write := Suc (n_write w4)\<rparr>
                         in case fs_write env (n_write w4) fpath data of
                              Some e \<Rightarrow> (Inr (CaptureErr (''Failed to write file: '' @ e)), w5)
                            | None \<Rightarrow>
                                (Inr (CaptureOk fpath mime iw ih),
                                 w5\<lparr>written := written w5 @ [(fpath, data)]\<rparr>))))"

text \<open>Lines 350 and 351: the number of frames asked for, once the duration is looked at.\<close>

definition burst_count :: "int \<Rightarrow> int \<Rightarrow> int \<Rightarrow> exn + int" where
  "burst_count n period_ms duration_ms =
     (if 0 < duration_ms then
        (if period_ms = 0 then Inl ZeroDivisionError
         else Inr (max 1 (py_round (of_int duration_ms / of_int period_ms))))
      else Inr n)"

fun warmup_grabs :: "env \<Rightarrow> src \<Rightarrow> nat \<Rightarrow> world \<Rightarrow> world" where
  "warmup_grabs env s 0 w = w"
| "warmup_grabs env s (Suc k) w = warmup_grabs env s k (snd (grab env s w))"

definition burst_name :: "env \<Rightarrow> string \<Rightarrow> nat \<Rightarrow> nat \<Rightarrow> string" where
  "burst_name env ext c i =
     ''scr_'' @ strftime env c @ ''_'' @ zfill 3 (decimal (time_ms env c)) @ ''_'' @ zfill 2 (decimal i)
       @ ext"

text \<open>
  How the loop over \<open>range(max(1, int(n)))\<close> ends: it runs through, it returns a
  failure with the paths so far, or an exception leaves it.
\<close>

datatype loop_out =
  Completed "string list" string int int
| Aborted string "string list"
| Raised exn

fun burst_loop ::
  "env \<Rightarrow> src \<Rightarrow> string \<Rightarrow> string \<Rightarrow> nat list \<Rightarrow> string list \<Rightarrow> string \<Rightarrow> int \<Rightarrow> int \<Rightarrow> world
     \<Rightarrow> loop_out \<times> world" where
  "burst_loop env s out_dir fmt [] paths mime_last w_last h_last w =
     (Completed paths mime_last w_last h_last, w)"
| "burst_loop env s out_dir fmt (i # rest) paths mime_last w_last h_last w =
     (case grab env s w of
        (Inl msg, w1) \<Rightarrow> (Aborted (''Failed to capture: '' @ msg) paths, w1)
      | (Inr img, w1) \<Rightarrow>
          (case encode_image_pil env img fmt w1 of
             ((ok2, data, mime, iw, ih), w2) \<Rightarrow>
               if \<not> ok2 then (Aborted ''encode failed'' paths, w2)
               else
                 let ext = mime_ext mime;
                     fname = burst_name env ext (n_clock w2) i;
                     fpath = path_join env out_dir fname;
                     w3 = w2\<lparr>n_clock := Suc (n_clock w2), n_write := Suc (n_write w2)\<rparr>
                 in case fs_write env (n_write w2) fpath data of
                      Some e \<Rightarrow> (Raised (OSError e), w3)
                    | None \<Rightarrow>
                        burst_loop env s out_dir fmt rest (paths @ [fpath]) mime iw ih
                          (w3\<lparr>written := written w3 @ [(fpath, data)]\<rparr>)))"

declare burst_loop.simps [simp del]

definition screenshare_burst ::
  "env \<Rightarrow> int \<Rightarrow> int \<Rightarrow> string \<Rightarrow> string \<Rightarrow> int \<Rightarrow> int \<Rightarrow> src \<Rightarrow> world
     \<Rightarrow> (exn + burst_resp) \<times> world" where
  "screenshare_burst env n period_ms save_dir fmt warmup duration_ms s w =
     (if sct s = None then (Inr (BurstErr ''Screen source not initialized''), w)
      else
        case burst_count n period_ms duration_ms of
          Inl e \<Rightarrow> (Inl e, w)
        | Inr n' \<Rightarrow>
            (let out_dir = path_dir env save_dir;
                 w1 = w\<lparr>n_mkdir := Suc (n_mkdir w)\<rparr>
             in case fs_mkdir env (n_mkdir w) out_dir of
                  Some e \<Rightarrow> (Inl (OSError e), w1)
                | None \<Rightarrow>
                    (let w2 = w1\<lparr>made_dirs := made_dirs w1 @ [out_dir]\<rparr>;
                         mime0 = format_mime fmt;
                         w3 = warmup_grabs env s (nat (max 0 warmup)) w2
                     in case burst_loop env s out_dir fmt [0..<nat (max 1 n')] [] mime0 0 0 w3 of
                          (Completed paths mime wl hl, w4) \<Rightarrow>
                            (Inr (BurstOk paths mime wl hl (int (length paths)) period_ms
                                    duration_ms out_dir), w4)
                        | (Aborted err paths, w4) \<Rightarrow> (Inr (BurstPartial err paths), w4)
                        | (Raised e, w4) \<Rightarrow> (Inl e, w4))))"

definition screenshare_stop :: "env \<Rightarrow> src \<Rightarrow> world \<Rightarrow> (exn + stop_resp) \<times> src \<times> world" where
  "screenshare_stop env s w = (case close_source env s w of (s', w') \<Rightarrow> (Inr StopOk, s', w'))"

subsection \<open>An example environment\<close>

text \<open>
  A machine with one physical display, on which every external call succeeds, and the
  source that \<open>screenshare_start\<close> with its default arguments opens there.
\<close>

definition demo_monitors :: "monitor list" where
  "demo_monitors =
     [\<lparr>mon_left = 0, mon_top = 0, mon_width = 1920, mon_height = 1080\<rparr>,
      \<lparr>mon_left = 0, mon_top = 0, mon_width = 1920, mon_height = 1080\<rparr>]"

definition demo_env :: env where
  "demo_env =
     \<lparr>mss_mss = (\<lambda>k. Inr demo_monitors),
      sct_close = (\<lambda>h. None),
      sct_grab = (\<lambda>k h r. Inr \<lparr>img_width = reg_width r, img_height = reg_height r,
                                 img_mode = ''RGB''\<rparr>),
      is_wsl = False,
      wsl_capture = (\<lambda>k. Inl ''powershell.exe not found''),
      which = (\<lambda>t. False),
      tool_capture = (\<lambda>t k. Inl ''not installed''),
      pil_save = (\<lambda>k img f. Inr f),
      fs_mkdir = (\<lambda>k d. None),
      fs_write = (\<lambda>k p d. None),
      strftime = (\<lambda>c. ''20240101_120000''),
      time_ms = (\<lambda>c. 150 * c),
      path_dir = (\<lambda>d. d),
      path_join = (\<lambda>d f. d @ ''/'' @ f)\<rparr>"

definition demo_open :: src where
  "demo_open =
     \<lparr>sct = Some 0, monitor_index = 1,
      region = Some \<lparr>reg_left = 0, reg_top = 0, reg_width = 1920, reg_height = 1080\<rparr>,
      scale = 1,
      props = Some \<lparr>props_monitor_index = 1,
                    props_region = \<lparr>reg_left = 0, reg_top = 0, reg_width = 1920,
                                     reg_height = 1080\<rparr>,
                    props_scale = 1\<rparr>\<rparr>"

subsection \<open>Capture before start\<close>

text \<open>
  C7. With no source open, \<open>screenshare_capture\<close> answers \<open>ok: False\<close> with the
  error "Screen source not initialized", whatever the directory and the format, and the
  world is left as it was: no directory is made and no file is written.
\<close>

theorem capture_not_initialized:
  "sct s = None \<Longrightarrow>
     screenshare_capture env save_dir fmt s w
       = (Inr (CaptureErr ''Screen source not initialized''), w)"
  by (simp add: screenshare_capture_def grab_def)

theorem capture_not_initialized_witness:
  "sct init_src = None
   \<and> screenshare_capture demo_env ''~/.screen_frames'' ''jpg'' init_src init_world
       = (Inr (CaptureErr ''Screen source not initialized''), init_world)"
  using capture_not_initialized [of init_src demo_env "''~/.screen_frames''" "''jpg''" init_world]
  by (simp add: init_src_def)

subsection \<open>Starting twice\<close>

text \<open>
  C2. When a source is already open, \<open>screenshare_start\<close> answers success at once,
  whatever its arguments: the stored source (monitor index, region, scale, props) and
  the world are as before, so nothing was validated or acquired. When the source was
  opened by a successful first call on a closed source, the status after the second
  call reports the first call's monitor index and props.
\<close>

theorem start_when_open_is_noop:
  "(sct s \<noteq> None \<longrightarrow>
      screenshare_start env monitor_index' left' top' width height scale' s w
        = (Inr (StartResp True ''Screen capture already initialized'' (props s) (monitor_index s)),
           s, w))
   \<and> (sct s0 = None
        \<and> screenshare_start env1 index1 left1 top1 width1 height1 scale1 s0 w0 = (Inr r1, s, w)
        \<and> start_ok r1 \<longrightarrow>
      sct s \<noteq> None
      \<and> screenshare_status s = Inr (StatusResp True index1 (props s))
      \<and> (\<exists>reg. props s = Some \<lparr>props_monitor_index = index1, props_region = reg,
                     props_scale = max (1 / 10) (min 1 (if scale1 = 0 then 1 else scale1))\<rparr>
                \<and> region s = Some reg))"
  by (auto simp: screenshare_start_def open_source_def screenshare_status_def Let_def
           split: sum.splits if_splits option.splits)

theorem start_when_open_is_noop_witness:
  "sct demo_open \<noteq> None
   \<and> sct init_src = None
   \<and> screenshare_start demo_env 1 0 0 0 0 1 init_src init_world
       = (Inr (StartResp True ''Screen source initialized'' (props demo_open) 1), demo_open,
          init_world\<lparr>n_mss := 1\<rparr>)
   \<and> screenshare_start demo_env 0 10 10 100 100 (1 / 2) demo_open (init_world\<lparr>n_mss := 1\<rparr>)
       = (Inr (StartResp True ''Screen capture already initialized'' (props demo_open) 1),
          demo_open, init_world\<lparr>n_mss := 1\<rparr>)
   \<and> screenshare_status demo_open = Inr (StatusResp True 1 (props demo_open))"
proof -
  have first: "screenshare_start demo_env 1 0 0 0 0 1 init_src init_world
       = (Inr (StartResp True ''Screen source initialized'' (props demo_open) 1), demo_open,
          init_world\<lparr>n_mss := 1\<rparr>)"
    by (simp add: demo_open_def demo_env_def demo_monitors_def init_src_def init_world_def
        screenshare_start_def open_source_def Let_def)
  have opened: "sct demo_open \<noteq> None" and closed: "sct init_src = None"
    and idx: "monitor_index demo_open = 1"
    by (simp_all add: demo_open_def init_src_def)
  from start_when_open_is_noop [of demo_open demo_env 0 10 10 100 100 "1 / 2"
      "init_world\<lparr>n_mss := 1\<rparr>" init_src demo_env 1 0 0 0 0 1 init_world
      "StartResp True ''Screen source initialized'' (props demo_open) 1"]
  show ?thesis using first opened closed idx by simp
qed

subsection \<open>Stopping\<close>

text \<open>
  C9. \<open>screenshare_stop\<close> always answers \<open>ok: True\<close> and leaves the source at its
  defaults (no handle, monitor index 1, no region, scale 1, empty props), whether or
  not releasing the handle raises; the handle, if there was one, has been closed. The
  status then reports \<open>open: False\<close> with the defaults. With no source open nothing is
  closed, and a second stop changes nothing and succeeds.
\<close>

theorem stop_resets:
  "\<exists>w'. screenshare_stop env s w = (Inr StopOk, init_src, w')
     \<and> w' = (case sct s of None \<Rightarrow> w
             | Some h \<Rightarrow> w\<lparr>closed_handles := closed_handles w @ [h]\<rparr>)
     \<and> screenshare_status init_src = Inr (StatusResp False 1 None)
     \<and> screenshare_stop env init_src w' = (Inr StopOk, init_src, w')"
  by (simp add: screenshare_stop_def close_source_def screenshare_status_def init_src_def
        split: option.splits)

theorem stop_resets_witness:
  "screenshare_stop (demo_env\<lparr>sct_close := \<lambda>h. Some ''XCloseDisplay failed''\<rparr>) demo_open init_world
     = (Inr StopOk, init_src, init_world\<lparr>closed_handles := [0]\<rparr>)
   \<and> screenshare_status init_src = Inr (StatusResp False 1 None)
   \<and> screenshare_stop (demo_env\<lparr>sct_close := \<lambda>h. Some ''XCloseDisplay failed''\<rparr>) init_src
        (init_world\<lparr>closed_handles := [0]\<rparr>)
     = (Inr StopOk, init_src, init_world\<lparr>closed_handles := [0]\<rparr>)"
  using stop_resets [of "demo_env\<lparr>sct_close := \<lambda>h. Some ''XCloseDisplay failed''\<rparr>" demo_open init_world]
  by (simp add: demo_open_def init_world_def)

subsection \<open>An invalid display index\<close>

text \<open>
  C3, as amended. The valid indices are \<open>0\<close> to \<open>len(monitors) - 1\<close>: with
  \<open>N + 1\<close> entries, \<open>0\<close> to \<open>N\<close>. With no source open, a handle acquired and an
  index below \<open>0\<close> or at least \<open>len(monitors)\<close>, if releasing the handle does not
  raise then \<open>screenshare_start\<close> answers failure with a message that names the index,
  the handle just acquired has been closed, and the source is as before, so the status
  reports \<open>open: False\<close>.
\<close>

theorem start_invalid_index:
  assumes "sct s = None"
    and "mss_mss env (n_mss w) = Inr monitors"
    and "idx < 0 \<or> int (length monitors) \<le> idx"
    and "sct_close env (n_mss w) = None"
  shows "screenshare_start env idx left' top' width height scale' s w
       = (Inr (StartResp False
                 (''Invalid monitor_index '' @ str_int idx @ ''; available 0..''
                    @ str_int (int (length monitors) - 1))
                 (props s) (monitor_index s)),
          s, w\<lparr>n_mss := Suc (n_mss w), closed_handles := closed_handles w @ [n_mss w]\<rparr>)
     \<and> screenshare_status s = Inr (StatusResp False (monitor_index s) (props s))"
  using assms
  by (simp add: screenshare_start_def open_source_def screenshare_status_def Let_def)

theorem start_invalid_index_witness:
  "sct init_src = None
   \<and> mss_mss demo_env (n_mss init_world) = Inr demo_monitors
   \<and> int (length demo_monitors) \<le> 2
   \<and> sct_close demo_env (n_mss init_world) = None
   \<and> screenshare_start demo_env 2 0 0 0 0 1 init_src init_world
       = (Inr (StartResp False ''Invalid monitor_index 2; available 0..1'' None 1), init_src,
          init_world\<lparr>n_mss := 1, closed_handles := [0]\<rparr>)
   \<and> screenshare_status init_src = Inr (StatusResp False 1 None)"
  using start_invalid_index [of init_src demo_env init_world demo_monitors 2 0 0 0 0 1]
  by (simp add: demo_env_def demo_monitors_def init_src_def init_world_def str_int_def
        decimal.simps digit_def)

text \<open>
  The claim as stated fails: with two entries (\<open>N = 1\<close>) the index \<open>1\<close> is outside
  \<open>[0, N - 1]\<close>, and \<open>screenshare_start\<close> opens the source on it. And for the index
  \<open>5\<close>, when closing the handle raises, the exception leaves \<open>screenshare_start\<close>
  (line 70 is outside any \<open>try\<close>) and no failure is returned.
\<close>

theorem start_last_index_counterexample:
  "sct init_src = None
   \<and> mss_mss demo_env (n_mss init_world) = Inr demo_monitors
   \<and> length demo_monitors = 1 + 1
   \<and> \<not> (0 \<le> (1::int) \<and> (1::int) \<le> 1 - 1)
   \<and> screenshare_start demo_env 1 0 0 0 0 1 init_src init_world
       = (Inr (StartResp True ''Screen source initialized'' (props demo_open) 1), demo_open,
          init_world\<lparr>n_mss := 1\<rparr>)
   \<and> screenshare_status demo_open = Inr (StatusResp True 1 (props demo_open))
   \<and> screenshare_start (demo_env\<lparr>sct_close := \<lambda>h. Some ''XCloseDisplay failed''\<rparr>) 5 0 0 0 0 1
         init_src init_world
       = (Inl (MssError ''XCloseDisplay failed''), init_src,
          init_world\<lparr>n_mss := 1, closed_handles := [0]\<rparr>)"
  by (simp add: demo_open_def demo_env_def demo_monitors_def init_src_def init_world_def
        screenshare_start_def open_source_def screenshare_status_def Let_def)

subsection \<open>The capture region\<close>

text \<open>
  C4. When \<open>_open_source\<close> opens a new source on the display \<open>mon\<close>, the region it
  stores is the display's bounds if \<open>width\<close> or \<open>height\<close> is at most \<open>0\<close>, and
  otherwise the display's origin moved by \<open>max(0, left)\<close> and \<open>max(0, top)\<close> with the
  extents \<open>max(1, width)\<close> and \<open>max(1, height)\<close>. A display has positive extents
  (the data model's DisplayInfo), and then the region's width and height are at least
  \<open>1\<close> in both cases.
\<close>

theorem open_source_region:
  assumes "sct s = None"
    and "mss_mss env (n_mss w) = Inr monitors"
    and "0 \<le> idx" and "idx < int (length monitors)"
    and "mon = monitors ! nat idx"
  shows "\<exists>msg s' w' r.
       open_source env idx left' top' width height scale' s w = (Inr (True, msg), s', w')
     \<and> region s' = Some r
     \<and> (width \<le> 0 \<or> height \<le> 0 \<longrightarrow>
          r = \<lparr>reg_left = mon_left mon, reg_top = mon_top mon,
               reg_width = mon_width mon, reg_height = mon_height mon\<rparr>)
     \<and> (0 < width \<and> 0 < height \<longrightarrow>
          r = \<lparr>reg_left = mon_left mon + max 0 left', reg_top = mon_top mon + max 0 top',
               reg_width = max 1 width, reg_height = max 1 height\<rparr>)
     \<and> (1 \<le> mon_width mon \<and> 1 \<le> mon_height mon \<longrightarrow> 1 \<le> reg_width r \<and> 1 \<le> reg_height r)"
  using assms
  by (auto simp: open_source_def Let_def)

theorem open_source_region_witness:
  "sct init_src = None
   \<and> mss_mss demo_env (n_mss init_world) = Inr demo_monitors
   \<and> (0::int) \<le> 1 \<and> 1 < int (length demo_monitors)
   \<and> (\<exists>msg s' w' r.
        open_source demo_env 1 (- 5) 20 640 480 1 init_src init_world = (Inr (True, msg), s', w')
        \<and> region s' = Some r
        \<and> r = \<lparr>reg_left = 0, reg_top = 20, reg_width = 640, reg_height = 480\<rparr>
        \<and> 1 \<le> reg_width r \<and> 1 \<le> reg_height r)"
  using open_source_region [of init_src demo_env init_world demo_monitors 1
      "demo_monitors ! nat 1" "- 5" 20 640 480 1]
  by (simp add: demo_env_def demo_monitors_def init_src_def init_world_def)

subsection \<open>Frames of a burst\<close>

text \<open>
  The tools keep the handle and the region together: \<open>screenshare_start\<close> sets both or
  neither, and \<open>screenshare_stop\<close> clears both. So an open source has a region.
\<close>

lemma start_keeps_region_with_handle:
  assumes "(sct s = None) = (region s = None)"
    and "screenshare_start env monitor_index' left' top' width height scale' s w = (r, s', w')"
  shows "(sct s' = None) = (region s' = None)"
  using assms
  by (auto simp: screenshare_start_def open_source_def Let_def
        split: if_splits sum.splits option.splits)

lemma stop_keeps_region_with_handle:
  "screenshare_stop env s w = (r, s', w') \<Longrightarrow> sct s' = None \<and> region s' = None"
  by (auto simp: screenshare_stop_def close_source_def init_src_def)

text \<open>
  While the source is open, \<open>_grab\<close> is the fallback chain at the next capture, and
  a successful encoding has the mime type of the format asked for.
\<close>


lemma grab_open:
  "sct s = Some h \<Longrightarrow> region s = Some reg \<Longrightarrow>
   grab env s w =
     (fst (grab_at env h reg (grab_scale s) (n_grab w)),
      w\<lparr>n_grab := Suc (n_grab w),
        tools_run := tools_run w @ snd (grab_at env h reg (grab_scale s) (n_grab w))\<rparr>)"
  by (simp add: grab_def Let_def)


lemma warmup_grabs_world:
  assumes "sct s = Some h" and "region s = Some reg"
  shows "n_grab (warmup_grabs env s k w) = n_grab w + k
     \<and> n_save (warmup_grabs env s k w) = n_save w
     \<and> n_write (warmup_grabs env s k w) = n_write w
     \<and> n_clock (warmup_grabs env s k w) = n_clock w
     \<and> made_dirs (warmup_grabs env s k w) = made_dirs w
     \<and> written (warmup_grabs env s k w) = written w"
  by (induction k arbitrary: w) (simp_all add: grab_open [OF assms])





lemma screenshare_burst_open:
  assumes "sct s = Some h"
    and "burst_count n period_ms duration_ms = Inr n'"
    and "fs_mkdir env (n_mkdir w) (path_dir env save_dir) = None"
  shows "screenshare_burst env n period_ms save_dir fmt warmup duration_ms s w =
     (case burst_loop env s (path_dir env save_dir) fmt [0..<nat (max 1 n')] [] (format_mime fmt) 0 0
             (warmup_grabs env s (nat (max 0 warmup))
                (w\<lparr>n_mkdir := Suc (n_mkdir w),
                   made_dirs := made_dirs w @ [path_dir env save_dir]\<rparr>)) of
        (Completed paths mime wl hl, w4) \<Rightarrow>
          (Inr (BurstOk paths mime wl hl (int (length paths)) period_ms duration_ms
                  (path_dir env save_dir)), w4)
      | (Aborted err paths, w4) \<Rightarrow> (Inr (BurstPartial err paths), w4)
      | (Raised e, w4) \<Rightarrow> (Inl e, w4))"
  using assms by (simp add: screenshare_burst_def Let_def)









subsection \<open>The file names of a burst\<close>










subsection \<open>A burst of n frames\<close>



subsection \<open>A burst with a non-positive n\<close>



subsection \<open>The frame count of a duration\<close>




subsection \<open>A burst that fails part-way\<close>



subsection \<open>Exceptions that leave a burst\<close>

text \<open>
  C1. \<open>screenshare_burst\<close> does not catch every error: with an open source the
  division by \<open>period_ms = 0\<close> raises when \<open>duration_ms > 0\<close>, and an error of the
  directory creation or of a file write leaves the tool as an exception. The instance
  after it evaluates the three cases, and \<open>screenshare_capture\<close> on the same write
  error, which answers \<open>ok: False\<close> instead.
\<close>


theorem burst_lets_exceptions_out:
  "(sct s \<noteq> None \<and> 0 < duration_ms \<longrightarrow>
      screenshare_burst env n 0 save_dir fmt warmup duration_ms s w = (Inl ZeroDivisionError, w))
   \<and> (sct s \<noteq> None \<and> burst_count n period_ms duration_ms = Inr n'
        \<and> fs_mkdir env (n_mkdir w) (path_dir env save_dir) = Some e \<longrightarrow>
      fst (screenshare_burst env n period_ms save_dir fmt warmup duration_ms s w) = Inl (OSError e))
   \<and> (sct s = Some h \<and> region s = Some reg \<and> burst_count n period_ms duration_ms = Inr n'
        \<and> fs_mkdir env (n_mkdir w) (path_dir env save_dir) = None
        \<and> fst (grab_at env h reg (grab_scale s) (n_grab w + nat (max 0 warmup))) = Inr img
        \<and> fst (encode_at env img fmt (n_save w))
        \<and> (\<forall>p d. fs_write env (n_write w) p d = Some e) \<longrightarrow>
      fst (screenshare_burst env n period_ms save_dir fmt warmup duration_ms s w) = Inl (OSError e))"
proof (intro conjI impI)
  assume "sct s \<noteq> None \<and> 0 < duration_ms"
  then show "screenshare_burst env n 0 save_dir fmt warmup duration_ms s w
      = (Inl ZeroDivisionError, w)"
    by (simp add: screenshare_burst_def burst_count_def)
next
  assume "sct s \<noteq> None \<and> burst_count n period_ms duration_ms = Inr n'
        \<and> fs_mkdir env (n_mkdir w) (path_dir env save_dir) = Some e"
  then show "fst (screenshare_burst env n period_ms save_dir fmt warmup duration_ms s w)
      = Inl (OSError e)"
    by (simp add: screenshare_burst_def Let_def)
next
  assume a: "sct s = Some h \<and> region s = Some reg \<and> burst_count n period_ms duration_ms = Inr n'
        \<and> fs_mkdir env (n_mkdir w) (path_dir env save_dir) = None
        \<and> fst (grab_at env h reg (grab_scale s) (n_grab w + nat (max 0 warmup))) = Inr img
        \<and> fst (encode_at env img fmt (n_save w))
        \<and> (\<forall>p d. fs_write env (n_write w) p d = Some e)"
  let ?dir = "path_dir env save_dir"
  let ?w0 = "warmup_grabs env s (nat (max 0 warmup))
                (w\<lparr>n_mkdir := Suc (n_mkdir w), made_dirs := made_dirs w @ [?dir]\<rparr>)"
  from a have s: "sct s = Some h" "region s = Some reg"
    and n: "burst_count n period_ms duration_ms = Inr n'"
    and mk: "fs_mkdir env (n_mkdir w) ?dir = None"
    by simp_all
  note wg = warmup_grabs_world [OF s, of env "nat (max 0 warmup)"
      "w\<lparr>n_mkdir := Suc (n_mkdir w), made_dirs := made_dirs w @ [?dir]\<rparr>"]
  have g: "fst (grab_at env h reg (grab_scale s) (n_grab ?w0)) = Inr img"
    and en: "fst (encode_at env img fmt (n_save ?w0))"
    and wr: "\<forall>p d. fs_write env (n_write ?w0) p d = Some e"
    using a wg by simp_all
  obtain ok2 d mime iw ih where enc: "encode_at env img fmt (n_save ?w0) = (ok2, d, mime, iw, ih)"
    by (metis prod_cases5)
  with en have ok2: "ok2" by simp
  have split: "[0..<nat (max 1 n')] = 0 # [Suc 0..<nat (max 1 n')]"
    by (simp add: upt_rec)
  have "\<exists>w4. burst_loop env s ?dir fmt (0 # [Suc 0..<nat (max 1 n')]) [] (format_mime fmt) 0 0 ?w0
      = (Raised (OSError e), w4)"
    using g wr ok2
    by (simp add: burst_loop.simps grab_open [OF s] encode_image_pil_def enc Let_def)
  then obtain w4 where
    "burst_loop env s ?dir fmt (0 # [Suc 0..<nat (max 1 n')]) [] (format_mime fmt) 0 0 ?w0
      = (Raised (OSError e), w4)"
    by blast
  then show "fst (screenshare_burst env n period_ms save_dir fmt warmup duration_ms s w)
      = Inl (OSError e)"
    unfolding screenshare_burst_open [OF s(1) n mk] split by simp
qed

theorem burst_lets_exceptions_out_witness:
  "screenshare_burst demo_env 8 0 ''.'' ''jpg'' 0 1000 demo_open init_world
     = (Inl ZeroDivisionError, init_world)
   \<and> fst (screenshare_burst (demo_env\<lparr>fs_mkdir := \<lambda>k d. Some ''Permission denied''\<rparr>)
            8 150 ''/root/frames'' ''jpg'' 0 0 demo_open init_world)
     = Inl (OSError ''Permission denied'')
   \<and> fst (screenshare_burst (demo_env\<lparr>fs_write := \<lambda>k p d. Some ''No space left on device''\<rparr>)
            8 150 ''.'' ''jpg'' 0 0 demo_open init_world)
     = Inl (OSError ''No space left on device'')
   \<and> fst (screenshare_capture (demo_env\<lparr>fs_write := \<lambda>k p d. Some ''No space left on device''\<rparr>)
            ''.'' ''jpg'' demo_open init_world)
     = Inr (CaptureErr ''Failed to write file: No space left on device'')"
proof -
  let ?reg = "\<lparr>reg_left = 0, reg_top = 0, reg_width = 1920, reg_height = 1080\<rparr>"
  let ?img = "\<lparr>img_width = 1920, img_height = 1080, img_mode = ''RGB''\<rparr>"
  let ?envw = "demo_env\<lparr>fs_write := \<lambda>k p d. Some ''No space left on device''\<rparr>"
  let ?envm = "demo_env\<lparr>fs_mkdir := \<lambda>k d. Some ''Permission denied''\<rparr>"
  have s: "sct demo_open = Some 0" "region demo_open = Some ?reg" "sct demo_open \<noteq> None"
    "grab_scale demo_open = 1"
    by (simp_all add: demo_open_def grab_scale_def)
  have n: "burst_count 8 150 0 = Inr 8" by (simp add: burst_count_def)
  have a: "screenshare_burst demo_env 8 0 ''.'' ''jpg'' 0 1000 demo_open init_world
     = (Inl ZeroDivisionError, init_world)"
    using burst_lets_exceptions_out [where s = demo_open and duration_ms = 1000
        and env = demo_env and n = 8 and save_dir = "''.''" and fmt = "''jpg''" and warmup = 0
        and w = init_world, THEN conjunct1] s
    by simp
  have b: "fst (screenshare_burst ?envm 8 150 ''/root/frames'' ''jpg'' 0 0 demo_open init_world)
     = Inl (OSError ''Permission denied'')"
    using burst_lets_exceptions_out [where s = demo_open and duration_ms = 0 and period_ms = 150
        and env = ?envm and n = 8 and n' = 8 and save_dir = "''/root/frames''" and fmt = "''jpg''"
        and warmup = 0 and w = init_world and e = "''Permission denied''",
        THEN conjunct2, THEN conjunct1] s n
    by (simp add: demo_env_def)
  have c: "fst (screenshare_burst ?envw 8 150 ''.'' ''jpg'' 0 0 demo_open init_world)
     = Inl (OSError ''No space left on device'')"
    using burst_lets_exceptions_out [where s = demo_open and duration_ms = 0 and period_ms = 150
        and env = ?envw and n = 8 and n' = 8 and save_dir = "''.''" and fmt = "''jpg''"
        and warmup = 0 and w = init_world and e = "''No space left on device''"
        and h = 0 and reg = ?reg and img = ?img,
        THEN conjunct2, THEN conjunct2] s n
    by (simp add: demo_env_def grab_at_def rescale_def encode_at_def Let_def init_world_def
          lower_def lower_char_def)
  have d: "fst (screenshare_capture ?envw ''.'' ''jpg'' demo_open init_world)
     = Inr (CaptureErr ''Failed to write file: No space left on device'')"
    by (simp add: screenshare_capture_def grab_open [OF s(1,2)] s demo_env_def grab_at_def
          rescale_def encode_image_pil_def encode_at_def Let_def lower_def lower_char_def)
  from a b c d show ?thesis by (intro conjI)
qed

end
